theory Spec2Isabelle
  imports Complex_Main "HOL-Library.Multiset"
begin

section \<open>Data model (lib/types.ts)\<close>

text \<open>
  Modelling conventions.
  \<^item> A JavaScript \<open>number\<close> holding hours is an exact \<open>real\<close>: rounding of IEEE doubles and
    \<open>NaN\<close> are outside the model. The form enters estimates in steps of 0.5, and on such
    values the additions and subtractions of the code are exact. The two id counters are
    natural numbers.
  \<^item> A JavaScript string is a \<open>string\<close> (a list of 8-bit characters).
  \<^item> \<open>workers\<close> and \<open>workerMap\<close> hold references to the same worker objects. The array
    owns the objects and \<open>workerMap\<close> maps an id to the position, in \<open>workers\<close>, of the
    object it references; mutating a worker reached through the map is an update of
    \<open>workers\<close> at that position.
  \<^item> A thrown \<open>Error\<close> is a value of type \<open>error\<close>, one constructor per message. Every
    operation returns what its caller sees (the error or the returned value) together
    with the in-memory store it leaves behind.
  \<^item> \<open>localStorage.setItem\<close> and the clock are the environment: whether the write is
    accepted is the Boolean parameter \<open>ok\<close>, the current time is the parameter \<open>now\<close>,
    and \<open>new Date(s).getTime()\<close> is the parameter \<open>getTime\<close>, with \<open>None\<close> for \<open>NaN\<close>.
\<close>

datatype Priority = High | Medium | Low

record worker =
  w_id :: string
  name :: string
  availability :: bool
  totalAssignedHours :: real

record task =
  t_id :: string
  description :: string
  priority :: Priority
  timeEstimate :: real
  deadline :: string
  assignedTo :: "string option"
  createdAt :: string
  completed :: bool

record store =
  workers :: "worker list"
  tasks :: "task list"
  workerMap :: "string \<rightharpoonup> nat"
  nextWorkerId :: nat
  nextTaskId :: nat

datatype error =
    TaskNotFound
  | WorkerNotFound
  | WorkerNotAvailable
  | WouldExceedMaximumHours
  | FailedToSaveData

type_synonym 'a result = "(error + 'a) \<times> store"


fun PRIORITY_WEIGHTS :: "Priority \<Rightarrow> int" where
  "PRIORITY_WEIGHTS High = 3"
| "PRIORITY_WEIGHTS Medium = 2"
| "PRIORITY_WEIGHTS Low = 1"


section \<open>Identifier allocation\<close>







section \<open>Store operations (lib/data.ts)\<close>

definition saveData :: "bool \<Rightarrow> store \<Rightarrow> unit result" where
  "saveData ok s = (if ok then (Inr (), s) else (Inl FailedToSaveData, s))"

text \<open>\<open>tasks.find(t => t.id === taskId)\<close>: the position of the first task with that id.\<close>

fun findTask :: "task list \<Rightarrow> string \<Rightarrow> nat option" where
  "findTask [] k = None"
| "findTask (t # ts) k = (if t_id t = k then Some 0 else map_option Suc (findTask ts k))"





text \<open>
  The body of \<open>if (task.assignedTo) { const prevWorker = workerMap.get(task.assignedTo);
  if (prevWorker) prevWorker.totalAssignedHours -= task.timeEstimate }\<close>, shared by
  \<open>assignTaskToWorker\<close> and \<open>unassignTask\<close>.
\<close>

definition releaseHours :: "store \<Rightarrow> task \<Rightarrow> worker list" where
  "releaseHours s t =
     (case assignedTo t of
        None \<Rightarrow> workers s
      | Some p \<Rightarrow>
          if p = [] then workers s
          else (case workerMap s p of
                  None \<Rightarrow> workers s
                | Some pw \<Rightarrow>
                    (workers s)[pw := (workers s ! pw)
                       \<lparr>totalAssignedHours := totalAssignedHours (workers s ! pw) - timeEstimate t\<rparr>]))"



definition completeTask :: "bool \<Rightarrow> store \<Rightarrow> string \<Rightarrow> unit result" where
  "completeTask ok s taskId =
     (case findTask (tasks s) taskId of
        None \<Rightarrow> (Inl TaskNotFound, s)
      | Some ti \<Rightarrow> saveData ok (s\<lparr>tasks := (tasks s)[ti := (tasks s ! ti)\<lparr>completed := True\<rparr>]\<rparr>))"

section \<open>Query layer (lib/data.ts)\<close>

text \<open>
  \<open>String.prototype.toLowerCase\<close> on the ASCII range: the letters \<open>A\<close> to \<open>Z\<close> are mapped
  to \<open>a\<close> to \<open>z\<close>, every other character is kept.
\<close>

definition lowerChar :: "char \<Rightarrow> char" where
  "lowerChar c =
     (case map_of (zip ''ABCDEFGHIJKLMNOPQRSTUVWXYZ'' ''abcdefghijklmnopqrstuvwxyz'') c of
        None \<Rightarrow> c
      | Some l \<Rightarrow> l)"

definition toLowerCase :: "string \<Rightarrow> string" where
  "toLowerCase s = map lowerChar s"

text \<open>\<open>s.includes(q)\<close>: \<open>q\<close> occurs in \<open>s\<close> at some position.\<close>

fun str_includes :: "string \<Rightarrow> string \<Rightarrow> bool" where
  "str_includes [] q = (q = [])"
| "str_includes (c # cs) q = (take (length q) (c # cs) = q \<or> str_includes cs q)"

definition matchesQuery :: "string \<Rightarrow> task \<Rightarrow> bool" where
  "matchesQuery lowercaseQuery t =
     (str_includes (toLowerCase (description t)) lowercaseQuery \<or>
      str_includes (toLowerCase (t_id t)) lowercaseQuery \<or>
      (case assignedTo t of
         None \<Rightarrow> False
       | Some a \<Rightarrow> a \<noteq> [] \<and> str_includes (toLowerCase a) lowercaseQuery))"

definition searchTasks :: "store \<Rightarrow> string \<Rightarrow> task list" where
  "searchTasks s query = filter (matchesQuery (toLowerCase query)) (tasks s)"




text \<open>
  \<open>Array.prototype.sort(comparefn)\<close>. ECMAScript requires the sort to be stable, reads a
  \<open>NaN\<close> returned by \<open>comparefn\<close> as \<open>+0\<close>, and fixes the result only when \<open>comparefn\<close> is a
  consistent comparator. It is modelled by the stable insertion sort; a comparator
  result is an \<open>int option\<close> with \<open>None\<close> for \<open>NaN\<close>.
\<close>

definition sortCompare :: "('a \<Rightarrow> 'a \<Rightarrow> int option) \<Rightarrow> 'a \<Rightarrow> 'a \<Rightarrow> int" where
  "sortCompare comparefn x y = (case comparefn x y of None \<Rightarrow> 0 | Some v \<Rightarrow> v)"

fun insertSorted :: "('a \<Rightarrow> 'a \<Rightarrow> int option) \<Rightarrow> 'a \<Rightarrow> 'a list \<Rightarrow> 'a list" where
  "insertSorted comparefn x [] = [x]"
| "insertSorted comparefn x (y # ys) =
     (if sortCompare comparefn x y \<le> 0 then x # y # ys else y # insertSorted comparefn x ys)"

definition Array_sort :: "('a \<Rightarrow> 'a \<Rightarrow> int option) \<Rightarrow> 'a list \<Rightarrow> 'a list" where
  "Array_sort comparefn xs = foldr (insertSorted comparefn) xs []"

text \<open>\<open>new Date(x).getTime() - new Date(y).getTime()\<close>, \<open>NaN\<close> when either date is invalid.\<close>

definition timeDifference :: "(string \<Rightarrow> int option) \<Rightarrow> string \<Rightarrow> string \<Rightarrow> int option" where
  "timeDifference getTime x y =
     (case getTime x of
        None \<Rightarrow> None
      | Some a \<Rightarrow> (case getTime y of None \<Rightarrow> None | Some b \<Rightarrow> Some (a - b)))"

definition comparePriority :: "(string \<Rightarrow> int option) \<Rightarrow> task \<Rightarrow> task \<Rightarrow> int option" where
  "comparePriority getTime a b =
     (let priorityDiff = PRIORITY_WEIGHTS (priority b) - PRIORITY_WEIGHTS (priority a)
      in if priorityDiff \<noteq> 0 then Some priorityDiff
         else timeDifference getTime (deadline a) (deadline b))"

definition sortTasksByPriority :: "(string \<Rightarrow> int option) \<Rightarrow> task list \<Rightarrow> task list" where
  "sortTasksByPriority getTime ts = Array_sort (comparePriority getTime) ts"

definition sortTasksByDeadline :: "(string \<Rightarrow> int option) \<Rightarrow> task list \<Rightarrow> task list" where
  "sortTasksByDeadline getTime ts =
     Array_sort (\<lambda>a b. timeDifference getTime (deadline a) (deadline b)) ts"




section \<open>Callers (app/tasks/page.tsx and the assignment form)\<close>

datatype FilterOption = FilterAll | Active | Completed | Assigned | Unassigned

datatype SortOption = ByPriority | ByDeadline | ByCreated | Unsorted

text \<open>The two filter steps of \<open>applyFiltersAndSorting\<close>.\<close>

fun filterByStatus :: "FilterOption \<Rightarrow> task list \<Rightarrow> task list" where
  "filterByStatus Active ts = filter (\<lambda>t. \<not> completed t) ts"
| "filterByStatus Completed ts = filter (\<lambda>t. completed t) ts"
| "filterByStatus Assigned ts = filter (\<lambda>t. assignedTo t \<noteq> None) ts"
| "filterByStatus Unassigned ts = filter (\<lambda>t. assignedTo t = None) ts"
| "filterByStatus FilterAll ts = ts"

text \<open>The priority filter is \<open>None\<close> for the choice \<open>'all'\<close>.\<close>

fun filterByPriority :: "Priority option \<Rightarrow> task list \<Rightarrow> task list" where
  "filterByPriority None ts = ts"
| "filterByPriority (Some p) ts = filter (\<lambda>t. priority t = p) ts"

text \<open>\<open>String.prototype.trim\<close> on the ASCII range.\<close>

definition isWhiteSpace :: "char \<Rightarrow> bool" where
  "isWhiteSpace c = (c \<in> set [CHR '' '', CHR 0x09, CHR 0x0A, CHR 0x0B, CHR 0x0C, CHR 0x0D])"

definition trim :: "string \<Rightarrow> string" where
  "trim s = rev (dropWhile isWhiteSpace (rev (dropWhile isWhiteSpace s)))"

definition applyFiltersAndSorting ::
  "(string \<Rightarrow> int option) \<Rightarrow> store \<Rightarrow> task list \<Rightarrow> string \<Rightarrow> SortOption \<Rightarrow> FilterOption \<Rightarrow>
     Priority option \<Rightarrow> task list" where
  "applyFiltersAndSorting getTime s allTasks searchQuery sortBy filterBy priorityFilter =
     (let found = (if trim searchQuery \<noteq> [] then searchTasks s (trim searchQuery) else allTasks);
          kept = filterByPriority priorityFilter (filterByStatus filterBy found)
      in case sortBy of
           ByPriority \<Rightarrow> sortTasksByPriority getTime kept
         | ByDeadline \<Rightarrow> sortTasksByDeadline getTime kept
         | ByCreated \<Rightarrow>
             Array_sort (\<lambda>a b. timeDifference getTime (createdAt b) (createdAt a)) kept
         | Unsorted \<Rightarrow> kept)"



section \<open>Sessions of calls\<close>






section \<open>The bookkeeping of hours\<close>











section \<open>Example data\<close>

definition ann :: worker where
  "ann = \<lparr>w_id = ''W001'', name = ''Ann'', availability = True, totalAssignedHours = 5\<rparr>"

definition bob :: worker where
  "bob = \<lparr>w_id = ''W002'', name = ''Bob'', availability = True, totalAssignedHours = 0\<rparr>"

definition cleanRoom :: task where
  "cleanRoom =
     \<lparr>t_id = ''T001'', description = ''Clean Room 101'', priority = High, timeEstimate = 3,
      deadline = ''2025-01-10'', assignedTo = Some ''W001'', createdAt = ''2025-01-01T08:00:00.000Z'',
      completed = False\<rparr>"

definition vacuumHallway :: task where
  "vacuumHallway =
     \<lparr>t_id = ''T002'', description = ''Vacuum Hallway'', priority = High, timeEstimate = 2,
      deadline = ''2025-01-05'', assignedTo = Some ''W001'', createdAt = ''2025-01-01T08:05:00.000Z'',
      completed = False\<rparr>"

definition mopRoom :: task where
  "mopRoom =
     \<lparr>t_id = ''T003'', description = ''Mop Room 202'', priority = Low, timeEstimate = 3,
      deadline = ''2025-01-01'', assignedTo = None, createdAt = ''2025-01-01T08:10:00.000Z'',
      completed = False\<rparr>"

definition exampleStore :: store where
  "exampleStore =
     \<lparr>workers = [ann, bob], tasks = [cleanRoom, vacuumHallway, mopRoom],
      workerMap = [''W001'' \<mapsto> 0, ''W002'' \<mapsto> 1], nextWorkerId = 3, nextTaskId = 4\<rparr>"




section \<open>Properties\<close>

lemma findTask_Some:
  "findTask ts k = Some i \<Longrightarrow> i < length ts \<and> t_id (ts ! i) = k \<and> (\<forall>j<i. t_id (ts ! j) \<noteq> k)"
proof (induction ts arbitrary: i)
  case Nil
  then show ?case by simp
next
  case (Cons t ts)
  show ?case
  proof (cases "t_id t = k")
    case True
    with Cons.prems show ?thesis by simp
  next
    case False
    with Cons.prems obtain i' where i': "findTask ts k = Some i'" "i = Suc i'"
      by auto
    from Cons.IH [OF i'(1)] False i'(2) show ?thesis
      by (auto simp: less_Suc_eq_0_disj)
  qed
qed

lemma findTask_member: "t \<in> set ts \<Longrightarrow> \<exists>i. findTask ts (t_id t) = Some i"
  by (induction ts) auto

lemmas example_defs =
  exampleStore_def ann_def bob_def cleanRoom_def vacuumHallway_def mopRoom_def

subsection \<open>The capacity check\<close>



subsection \<open>Reassignment\<close>





subsection \<open>Completion\<close>

text \<open>
  Claim C5. For a task \<open>t\<close> of the store, \<open>completeTask\<close> with its id finds a task with that
  id (\<open>t\<close> itself when ids are unique), sets its \<open>completed\<close> flag and changes nothing else:
  every \<open>assignedTo\<close>, the workers and the index are as before. Whether the task was
  completed already or was never assigned plays no role, and the only error the call can
  throw is that of a failed snapshot write.
\<close>

theorem complete_only_sets_flag:
  assumes "t \<in> set (tasks s)"
  shows "\<exists>i. findTask (tasks s) (t_id t) = Some i \<and> t_id (tasks s ! i) = t_id t \<and>
           (distinct (map t_id (tasks s)) \<longrightarrow> tasks s ! i = t) \<and>
           fst (completeTask ok s (t_id t)) = (if ok then Inr () else Inl FailedToSaveData) \<and>
           snd (completeTask ok s (t_id t)) =
             s\<lparr>tasks := (tasks s)[i := (tasks s ! i)\<lparr>completed := True\<rparr>]\<rparr> \<and>
           completed (tasks (snd (completeTask ok s (t_id t))) ! i) \<and>
           map assignedTo (tasks (snd (completeTask ok s (t_id t)))) = map assignedTo (tasks s) \<and>
           workers (snd (completeTask ok s (t_id t))) = workers s \<and>
           workerMap (snd (completeTask ok s (t_id t))) = workerMap s"
proof -
  from assms obtain i where i: "findTask (tasks s) (t_id t) = Some i"
    using findTask_member by blast
  then have fi: "i < length (tasks s)" "t_id (tasks s ! i) = t_id t"
    by (simp_all add: findTask_Some)
  have same: "tasks s ! i = t" if d: "distinct (map t_id (tasks s))"
  proof -
    from assms obtain j where j: "j < length (tasks s)" "tasks s ! j = t"
      by (auto simp: in_set_conv_nth)
    with fi d have "i = j"
      by (metis distinct_conv_nth length_map nth_map)
    with j show ?thesis by simp
  qed
  have upd: "map assignedTo ((tasks s)[i := (tasks s ! i)\<lparr>completed := True\<rparr>]) =
      map assignedTo (tasks s)"
    using fi by (simp add: map_update list_update_same_conv)
  show ?thesis
    using i fi same upd by (auto simp: completeTask_def saveData_def)
qed

theorem complete_only_sets_flag_witness:
  "mopRoom \<in> set (tasks exampleStore) \<and> assignedTo mopRoom = None \<and>
   fst (completeTask True exampleStore (t_id mopRoom)) = Inr () \<and>
   fst (completeTask True (snd (completeTask True exampleStore (t_id mopRoom))) (t_id mopRoom)) =
     Inr () \<and>
   workers (snd (completeTask True exampleStore (t_id mopRoom))) = workers exampleStore"
  using complete_only_sets_flag [of mopRoom exampleStore True]
  by (simp add: example_defs completeTask_def saveData_def)

subsection \<open>Filters\<close>

text \<open>
  Claim C9. For every task list, every status filter and every priority filter, the
  status filter followed by the priority filter gives the same list as the priority
  filter followed by the status filter.
\<close>

theorem filters_commute:
  "filterByPriority pf (filterByStatus f ts) = filterByStatus f (filterByPriority pf ts)"
proof (cases pf)
  case None
  then show ?thesis by simp
next
  case (Some p)
  show ?thesis
    unfolding Some by (cases f) (simp_all add: conj_commute)
qed

subsection \<open>Search\<close>






subsection \<open>Creating a task\<close>




subsection \<open>Sorting\<close>














subsection \<open>Identifiers and sums of hours\<close>










subsection \<open>Releasing hours keeps the index\<close>

lemma ids_update_hours:
  "map w_id (ws[i := (ws ! i)\<lparr>totalAssignedHours := h\<rparr>]) = map w_id ws"
proof (cases "i < length ws")
  case True
  then show ?thesis by (simp add: map_update list_update_same_conv)
next
  case False
  then show ?thesis by (simp add: list_update_beyond)
qed


lemma hours_update_availability:
  "map totalAssignedHours (ws[i := (ws ! i)\<lparr>availability := a\<rparr>]) = map totalAssignedHours ws"
proof (cases "i < length ws")
  case True
  then show ?thesis by (simp add: map_update list_update_same_conv)
next
  case False
  then show ?thesis by (simp add: list_update_beyond)
qed

lemma ids_releaseHours: "map w_id (releaseHours s t) = map w_id (workers s)"
  by (simp add: releaseHours_def ids_update_hours split: option.splits)

lemma length_releaseHours: "length (releaseHours s t) = length (workers s)"
  using ids_releaseHours [of s t] by (metis length_map)

lemma w_id_releaseHours:
  "i < length (workers s) \<Longrightarrow> w_id (releaseHours s t ! i) = w_id (workers s ! i)"
  using ids_releaseHours [of s t] by (metis length_releaseHours nth_map)






subsection \<open>What assigning and unassigning change\<close>



subsection \<open>Every call keeps the books consistent\<close>











subsection \<open>The running total and the tasks bound to a worker\<close>






subsection \<open>The daily maximum\<close>













end
